theory Spec2Isabelle
  imports Main "HOL-Library.Sublist"
begin

section \<open>Kibali IA Store: the client-side orchestration layer\<close>

text \<open>
  The repository ships two versions of the React component \<^verbatim>\<open>App\<close>:
  \<^item> \<^verbatim>\<open>src/App.tsx\<close>, the current one (backend V3). Its functions keep their names here.
  \<^item> \<^verbatim>\<open>src/unnamed/part_001\<close>, the earlier one, which falls back to demonstration data
    when the backend does not answer (types in \<^verbatim>\<open>src/unnamed/part_000\<close>). Its functions
    carry the suffix \<open>_demo\<close>.

  React state (\<^verbatim>\<open>useState\<close>) is a record that every handler takes and returns; a
  call of a setter is a record update. What a handler does to the outside world is logged
  in the same record: the requests passed to \<^verbatim>\<open>fetch\<close>, the messages shown by
  \<^verbatim>\<open>confirm\<close> and \<^verbatim>\<open>alert\<close>, and whether the timer of \<^verbatim>\<open>setInterval\<close> is
  registered. What the outside world answers is an argument: the outcome of each
  \<^verbatim>\<open>fetch\<close> and the answer of \<^verbatim>\<open>confirm\<close>.

  Strings are byte lists in UTF-8; characters beyond ASCII are written by their bytes.
\<close>

subsection \<open>Strings of the JavaScript runtime\<close>

definition nl :: string where
  "nl = [CHR 0x0A]"

definition e_acute :: string where
  "e_acute = [CHR 0xC3, CHR 0xA9]"

definition e_grave :: string where
  "e_grave = [CHR 0xC3, CHR 0xA8]"

definition oe_lig :: string where
  "oe_lig = [CHR 0xC5, CHR 0x93]"

definition warning_sign :: string where
  "warning_sign = [CHR 0xE2, CHR 0x9A, CHR 0xA0, CHR 0xEF, CHR 0xB8, CHR 0x8F]"

definition info_sign :: string where
  "info_sign = [CHR 0xE2, CHR 0x84, CHR 0xB9, CHR 0xEF, CHR 0xB8, CHR 0x8F]"

definition check_mark :: string where
  "check_mark = [CHR 0xE2, CHR 0x9C, CHR 0x85]"

text \<open>\<^verbatim>\<open>Array.prototype.join\<close> on an array of strings.\<close>

fun join :: "string \<Rightarrow> string list \<Rightarrow> string" where
  "join sep [] = []"
| "join sep [x] = x"
| "join sep (x # y # ys) = x @ sep @ join sep (y # ys)"

text \<open>A number in a template literal: its decimal digits.\<close>

function string_of_nat :: "nat \<Rightarrow> string" where
  "string_of_nat n =
     (if n < 10 then [''0123456789'' ! n]
      else string_of_nat (n div 10) @ [''0123456789'' ! (n mod 10)])"
  by pat_completeness auto
termination
  by (relation "measure (\<lambda>n. n)") auto

definition string_of_int :: "int \<Rightarrow> string" where
  "string_of_int i = (if i < 0 then ''-'' @ string_of_nat (nat (- i)) else string_of_nat (nat i))"

text \<open>
  \<^verbatim>\<open>encodeURIComponent\<close>: every byte of the UTF-8 encoding is escaped as \<^verbatim>\<open>%XX\<close>, except
  letters, digits and \<^verbatim>\<open>- _ . ! ~ * ' ( )\<close>.
\<close>

definition unreserved :: "char \<Rightarrow> bool" where
  "unreserved c \<longleftrightarrow>
     (let n = (of_char c :: nat) in
        (97 \<le> n \<and> n \<le> 122) \<or> (65 \<le> n \<and> n \<le> 90) \<or> (48 \<le> n \<and> n \<le> 57))
     \<or> c \<in> set ''-_.!~*'()''"

definition hex_digit :: "nat \<Rightarrow> char" where
  "hex_digit n = ''0123456789ABCDEF'' ! (n mod 16)"

definition percent_encode :: "char \<Rightarrow> string" where
  "percent_encode c =
     (if unreserved c then [c]
      else [CHR ''%'', hex_digit (of_char c div 16), hex_digit (of_char c mod 16)])"

definition encodeURIComponent :: "string \<Rightarrow> string" where
  "encodeURIComponent s = concat (map percent_encode s)"


subsection \<open>Data exchanged with the backend (\<^verbatim>\<open>src/App.tsx\<close>, lines 26 to 71)\<close>

text \<open>
  The interfaces of the source, field by field. A field name that two interfaces share
  carries the interface as a prefix in all but one of them. \<^verbatim>\<open>Record<string, any>\<close> is an
  association list, in the order of \<^verbatim>\<open>Object.entries\<close>.
\<close>

datatype jsval = Num int | Str string

record ModelInfo =
  nom :: string
  repo_id :: string
  chemin :: string
  taille_fmt :: string
  taille_bytes :: int
  statut :: string
  model_type :: string
  pytorch :: bool
  tf :: bool
  cuda_compatible :: bool
  standard_hf :: bool
  model_custom_files :: "string list"

record Diagnostics =
  CPU :: "(string \<times> jsval) list"
  RAM :: "(string \<times> jsval) list"
  GPU_CUDA :: "(string \<times> jsval) list"
  Conseil_RAM :: "string option"
  Conseil_GPU :: "string option"

record SearchResult =
  hit_id :: string
  author :: string
  downloads :: int
  hit_is_standard :: bool
  tags :: "string list"
  likes :: int
  pipeline_tag :: "string option"

record SnippetResponse =
  code :: string
  description :: string
  snippet_is_standard :: bool

record VerifyResponse =
  verify_repo_id :: string
  fonctionnel :: bool
  details :: string
  path :: "string option"

text \<open>
  The answer of \<^verbatim>\<open>/models/check-remote\<close> has no interface in the source (it is
  \<^verbatim>\<open>any\<close>); \<^verbatim>\<open>handleDownload\<close> reads \<^verbatim>\<open>is_standard\<close> and \<^verbatim>\<open>custom_files\<close>
  from it, and tests whether the latter is there: \<open>None\<close> is the absent field.
  The answer of \<^verbatim>\<open>/system/cleanup\<close> is read for its \<^verbatim>\<open>count\<close>.
\<close>

record PreflightCheck =
  check_repo_id :: string
  is_standard :: bool
  custom_files :: "string list option"

record CleanupReport =
  count :: int

subsection \<open>Requests and what the network does with them\<close>

datatype http_method = GET | POST | DELETE

datatype req_body =
    RepoBody string          \<comment> \<open>\<^verbatim>\<open>JSON.stringify({ repo_id: repoId })\<close>\<close>
  | QueryBody string nat     \<comment> \<open>\<^verbatim>\<open>JSON.stringify({ query: searchQuery, limit: 12 })\<close>\<close>

record request =
  endpoint :: string
  http_method :: http_method
  body :: "req_body option"

text \<open>
  A call of \<^verbatim>\<open>fetch\<close> settles in one of two ways, after some milliseconds: a response
  arrives, or the transport fails (\<^verbatim>\<open>fetch\<close> rejects with a \<^verbatim>\<open>TypeError\<close>).
  A response is accepted (\<^verbatim>\<open>res.ok\<close>, status 2xx) with a body that parses to data of the
  expected shape (\<open>Some\<close>) or does not parse (\<open>None\<close>), or it is refused, with its
  status, its status text and a body.
\<close>

datatype err_body =
    Detail string     \<comment> \<open>a JSON object with a string field \<^verbatim>\<open>detail\<close>\<close>
  | NoDetail          \<comment> \<open>a JSON value without that field\<close>
  | NullBody          \<comment> \<open>the JSON value \<^verbatim>\<open>null\<close>\<close>
  | NotJson           \<comment> \<open>a body that is not JSON\<close>

datatype 'a response =
    Accepted "'a option"
  | Refused nat string err_body

datatype 'a transport =
    Responds nat "'a response"
  | Fails nat

fun arrival :: "'a transport \<Rightarrow> nat" where
  "arrival (Responds t r) = t"
| "arrival (Fails t) = t"

text \<open>
  The values a rejected promise carries, each with its \<^verbatim>\<open>message\<close>. The wording of the
  messages that the runtime chooses (all but those of \<open>Error\<close>) is that of V8.
\<close>

datatype js_error =
    Error string
  | TypeError string
  | SyntaxError string
  | AbortError string

fun message :: "js_error \<Rightarrow> string" where
  "message (Error m) = m"
| "message (TypeError m) = m"
| "message (SyntaxError m) = m"
| "message (AbortError m) = m"

definition network_failure :: js_error where
  "network_failure = TypeError ''Failed to fetch''"

definition bad_json :: js_error where
  "bad_json = SyntaxError ''Unexpected end of JSON input''"

definition aborted :: js_error where
  "aborted = AbortError ''signal is aborted without reason''"

subsection \<open>\<^verbatim>\<open>apiFetch\<close> (\<^verbatim>\<open>src/App.tsx\<close>, lines 93 to 108)\<close>

text \<open>
  \<^verbatim>\<open>errData.detail\<close> of a refused response: the field of the body, or, when the body is
  not JSON, the status text that the handler of \<^verbatim>\<open>.catch\<close> puts in its place. Reading
  the field of \<^verbatim>\<open>null\<close> throws.
\<close>

fun errData_detail :: "string \<Rightarrow> err_body \<Rightarrow> js_error + string option" where
  "errData_detail statusText (Detail d) = Inr (Some d)"
| "errData_detail statusText NoDetail = Inr None"
| "errData_detail statusText NullBody =
     Inl (TypeError ''Cannot read properties of null (reading 'detail')'')"
| "errData_detail statusText NotJson = Inr (Some statusText)"

text \<open>\<^verbatim>\<open>detail || fallback\<close>: an absent or empty string is falsy.\<close>

fun or_else :: "string option \<Rightarrow> string \<Rightarrow> string" where
  "or_else None d = d"
| "or_else (Some s) d = (if s = [] then d else s)"

text \<open>
  This version sets no timer: it waits for \<^verbatim>\<open>fetch\<close> to settle, however late.
  The \<^verbatim>\<open>catch\<close> logs the error and throws it again unchanged.
\<close>

fun apiFetch :: "'a transport \<Rightarrow> js_error + 'a" where
  "apiFetch (Fails t) = Inl network_failure"
| "apiFetch (Responds t (Accepted (Some data))) = Inr data"
| "apiFetch (Responds t (Accepted None)) = Inl bad_json"
| "apiFetch (Responds t (Refused status statusText b)) =
     (case errData_detail statusText b of
        Inl err \<Rightarrow> Inl err
      | Inr detail \<Rightarrow> Inl (Error (or_else detail (''Erreur API: '' @ string_of_nat status))))"

subsection \<open>\<^verbatim>\<open>apiFetch\<close> of the earlier version (\<^verbatim>\<open>src/unnamed/part_001\<close>, lines 46 to 62)\<close>

text \<open>
  \<^verbatim>\<open>setTimeout(() => controller.abort(), 3000)\<close> races with \<^verbatim>\<open>fetch\<close>: when
  \<^verbatim>\<open>fetch\<close> has not settled before the timer fires, the request is aborted and
  \<^verbatim>\<open>fetch\<close> rejects with an \<^verbatim>\<open>AbortError\<close>. The timer is cleared once a response has
  arrived, so reading the body is not bounded.
\<close>

definition timeout_ms :: nat where
  "timeout_ms = 3000"

fun apiFetch_demo :: "'a transport \<Rightarrow> js_error + 'a" where
  "apiFetch_demo (Fails t) = (if t < timeout_ms then Inl network_failure else Inl aborted)"
| "apiFetch_demo (Responds t r) =
     (if t < timeout_ms then
        (case r of
           Refused status statusText b \<Rightarrow> Inl (Error (''API Error: '' @ string_of_nat status))
         | Accepted None \<Rightarrow> Inl bad_json
         | Accepted (Some data) \<Rightarrow> Inr data)
      else Inl aborted)"


subsection \<open>The component's state (\<^verbatim>\<open>src/App.tsx\<close>, lines 76 to 90)\<close>

datatype tab = Inventory | Discover | System

text \<open>
  The first eleven fields are the \<^verbatim>\<open>useState\<close> cells. The others record the effects:
  \<open>calls\<close> the requests given to \<^verbatim>\<open>fetch\<close>, oldest first; \<open>prompts\<close> the messages
  given to \<^verbatim>\<open>confirm\<close>; \<open>alerts\<close> those given to \<^verbatim>\<open>alert\<close>; \<open>timer\<close> whether
  the interval of \<^verbatim>\<open>setInterval\<close> is registered; \<open>pending_polls\<close> how many calls of
  \<^verbatim>\<open>fetchDiagnostics\<close>, started by the effect or its interval, wait for their response;
  \<open>mounted\<close> whether React still has the component. The handlers are run by the
  rendered component, hence while it is mounted.
\<close>

record app_state =
  models :: "ModelInfo list"
  diagnostics :: "Diagnostics option"
  searchResults :: "SearchResult list"
  isLoading :: bool
  loadingMessage :: string
  activeTab :: tab
  searchQuery :: string
  error :: "string option"
  snippetData :: "SnippetResponse option"
  verifyData :: "VerifyResponse option"
  showCleanupConfirm :: bool
  calls :: "request list"
  prompts :: "string list"
  alerts :: "string list"
  timer :: bool
  pending_polls :: nat
  mounted :: bool

definition initial_state :: app_state where
  "initial_state =
     \<lparr>models = [], diagnostics = None, searchResults = [], isLoading = False,
      loadingMessage = [], activeTab = Inventory, searchQuery = [], error = None,
      snippetData = None, verifyData = None, showCleanupConfirm = False,
      calls = [], prompts = [], alerts = [], timer = False, pending_polls = 0,
      mounted = True\<rparr>"

text \<open>
  What the backend and the user answer during one run of a handler: the answer of
  \<^verbatim>\<open>confirm\<close> to a message, and how the \<^verbatim>\<open>fetch\<close> of each endpoint settles.
  Every \<^verbatim>\<open>fetch\<close> is taken to settle.
\<close>

record world =
  confirm :: "string \<Rightarrow> bool"
  get_models :: "ModelInfo list transport"
  post_search :: "string \<Rightarrow> SearchResult list transport"
  post_check_remote :: "string \<Rightarrow> PreflightCheck transport"
  post_download :: "string \<Rightarrow> unit transport"
  delete_models :: "string \<Rightarrow> unit transport"
  post_snippet :: "string \<Rightarrow> SnippetResponse transport"
  post_verify :: "string \<Rightarrow> VerifyResponse transport"
  post_cleanup :: "CleanupReport transport"

definition models_request :: request where
  "models_request = \<lparr>endpoint = ''/models'', http_method = GET, body = None\<rparr>"

definition diagnostics_request :: request where
  "diagnostics_request = \<lparr>endpoint = ''/diagnostics'', http_method = GET, body = None\<rparr>"

definition search_request :: "string \<Rightarrow> request" where
  "search_request q =
     \<lparr>endpoint = ''/models/search'', http_method = POST, body = Some (QueryBody q 12)\<rparr>"

definition check_request :: "string \<Rightarrow> request" where
  "check_request repoId =
     \<lparr>endpoint = ''/models/check-remote'', http_method = POST, body = Some (RepoBody repoId)\<rparr>"

definition download_request :: "string \<Rightarrow> request" where
  "download_request repoId =
     \<lparr>endpoint = ''/models/download'', http_method = POST, body = Some (RepoBody repoId)\<rparr>"

definition delete_request :: "string \<Rightarrow> request" where
  "delete_request repoId =
     \<lparr>endpoint = ''/models'', http_method = DELETE, body = Some (RepoBody repoId)\<rparr>"

definition snippet_request :: "string \<Rightarrow> request" where
  "snippet_request repoId =
     \<lparr>endpoint = ''/models/snippet'', http_method = POST, body = Some (RepoBody repoId)\<rparr>"

definition verify_request :: "string \<Rightarrow> request" where
  "verify_request repoId =
     \<lparr>endpoint = ''/models/verify'', http_method = POST, body = Some (RepoBody repoId)\<rparr>"

definition cleanup_request :: request where
  "cleanup_request =
     \<lparr>endpoint = ''/system/cleanup?type=incomplete'', http_method = POST, body = None\<rparr>"

subsection \<open>\<^verbatim>\<open>fetchModels\<close> and \<^verbatim>\<open>fetchDiagnostics\<close> (lines 111 to 136)\<close>

text \<open>
  An \<^verbatim>\<open>async\<close> function runs up to its \<^verbatim>\<open>await\<close> when it is called and resumes when
  the awaited promise settles. Two callers (\<^verbatim>\<open>handleDownload\<close>, \<^verbatim>\<open>handleCleanup\<close>)
  and the mount effect call \<^verbatim>\<open>fetchModels()\<close> without \<^verbatim>\<open>await\<close>: for them only the
  first half runs inside the caller, and the second half runs after the caller is done.
\<close>

definition fetchModels_begin :: "app_state \<Rightarrow> app_state" where
  "fetchModels_begin st =
     st\<lparr>isLoading := True,
        loadingMessage := ''Scan des mod'' @ e_grave @ ''les locaux...'',
        calls := calls st @ [models_request]\<rparr>"

definition fetchModels_resume :: "ModelInfo list transport \<Rightarrow> app_state \<Rightarrow> app_state" where
  "fetchModels_resume tr st =
     (case apiFetch tr of
        Inr data \<Rightarrow> st\<lparr>models := data\<rparr>
      | Inl err \<Rightarrow>
          st\<lparr>error := Some (''Backend indisponible. V'' @ e_acute @ ''rifiez que 'main.py' est lanc''
                              @ e_acute @ ''.'')\<rparr>)
     \<lparr>isLoading := False\<rparr>"

definition fetchModels :: "world \<Rightarrow> app_state \<Rightarrow> app_state" where
  "fetchModels w st = fetchModels_resume (get_models w) (fetchModels_begin st)"

definition fetchDiagnostics_begin :: "app_state \<Rightarrow> app_state" where
  "fetchDiagnostics_begin st =
     st\<lparr>calls := calls st @ [diagnostics_request]\<rparr>"

definition fetchDiagnostics_resume :: "Diagnostics transport \<Rightarrow> app_state \<Rightarrow> app_state" where
  "fetchDiagnostics_resume tr st =
     (case apiFetch tr of
        Inr data \<Rightarrow> st\<lparr>diagnostics := Some data\<rparr>
      | Inl err \<Rightarrow> st)"

text \<open>
  The effect: at mount it starts both fetches and registers the interval; its cleanup
  clears the interval, and does nothing else.
\<close>

definition useEffect_mount :: "app_state \<Rightarrow> app_state" where
  "useEffect_mount st =
     (fetchDiagnostics_begin (fetchModels_begin st))
     \<lparr>timer := True, pending_polls := Suc (pending_polls st)\<rparr>"

definition useEffect_cleanup :: "app_state \<Rightarrow> app_state" where
  "useEffect_cleanup st = st\<lparr>timer := False\<rparr>"

text \<open>
  Both callbacks of the effect's dependency list are made with \<^verbatim>\<open>useCallback(..., [])\<close>
  and never change, so React runs the effect once and its cleanup once, when the
  component unmounts. After that React ignores the setters of the component: a
  continuation that still calls \<^verbatim>\<open>setDiagnostics\<close> changes nothing.
\<close>

definition unmount :: "app_state \<Rightarrow> app_state" where
  "unmount st = (useEffect_cleanup st)\<lparr>mounted := False\<rparr>"

text \<open>
  What can happen to the poller: the interval fires (only while it is registered), the
  response of a pending fetch arrives, or the poller is stopped, by the unmount.
\<close>

datatype event = Tick | Arrival "Diagnostics transport" | Stop

fun poller_step :: "app_state \<Rightarrow> event \<Rightarrow> app_state" where
  "poller_step st Tick =
     (if timer st then (fetchDiagnostics_begin st)\<lparr>pending_polls := Suc (pending_polls st)\<rparr>
      else st)"
| "poller_step st (Arrival tr) =
     (if 0 < pending_polls st
      then (if mounted st then fetchDiagnostics_resume tr st else st)
           \<lparr>pending_polls := pending_polls st - 1\<rparr>
      else st)"
| "poller_step st Stop = unmount st"

definition poller_run :: "app_state \<Rightarrow> event list \<Rightarrow> app_state" where
  "poller_run st evs = foldl poller_step st evs"


subsection \<open>The handlers (\<^verbatim>\<open>src/App.tsx\<close>, lines 140 to 257)\<close>

text \<open>
  Each handler is the state at the moment its promise settles. A \<^verbatim>\<open>try\<close> block is the
  chain of \<open>case\<close>s on what \<^verbatim>\<open>apiFetch\<close> returns; the \<^verbatim>\<open>catch\<close> is the branch
  \<open>Inl err\<close>; the \<^verbatim>\<open>finally\<close> is the last update, applied on every branch.
\<close>

definition handleSearch :: "world \<Rightarrow> app_state \<Rightarrow> app_state" where
  "handleSearch w st =
     (if searchQuery st = [] then st
      else
        (let st1 = st\<lparr>isLoading := True,
                        loadingMessage := ''Exploration Hugging Face pour '' @ [CHR 0x22]
                          @ searchQuery st @ [CHR 0x22] @ ''...'',
                        calls := calls st @ [search_request (searchQuery st)]\<rparr>
         in (case apiFetch (post_search w (searchQuery st)) of
               Inr data \<Rightarrow> st1\<lparr>searchResults := data\<rparr>
             | Inl err \<Rightarrow> st1\<lparr>error := Some (message err)\<rparr>)
            \<lparr>isLoading := False\<rparr>))"

text \<open>
  Lines 167 to 172: the message for \<^verbatim>\<open>confirm\<close>. The first branch calls \<^verbatim>\<open>join\<close> on
  \<^verbatim>\<open>check.custom_files\<close> without a test, which throws when the field is absent; the
  second branch tests the field first.
\<close>

definition confirmMsg :: "string \<Rightarrow> PreflightCheck \<Rightarrow> js_error + string" where
  "confirmMsg repoId check =
     (if \<not> is_standard check then
        (case custom_files check of
           None \<Rightarrow> Inl (TypeError ''Cannot read properties of undefined (reading 'join')'')
         | Some files \<Rightarrow>
             Inr (warning_sign @ '' ATTENTION: '' @ repoId @ '' est un mod'' @ e_grave
                  @ ''le CUSTOM.'' @ nl @ ''Il contient des fichiers Python sp'' @ e_acute
                  @ ''cifiques : '' @ join '', '' files @ ''.'' @ nl @ nl
                  @ ''Son utilisation demandera du code manuel.'' @ nl @ ''Continuer ?''))
      else
        (case custom_files check of
           Some files \<Rightarrow>
             (if 0 < length files then
                Inr (info_sign @ '' Note : '' @ repoId
                     @ '' est Standard mais contient du code custom (''
                     @ string_of_nat (length files) @ '' fichiers).'' @ nl
                     @ ''Il faudra utiliser trust_remote_code=True.'' @ nl @ ''Continuer ?'')
              else Inr (''T'' @ e_acute @ ''l'' @ e_acute @ ''charger '' @ repoId @ '' ?''))
         | None \<Rightarrow> Inr (''T'' @ e_acute @ ''l'' @ e_acute @ ''charger '' @ repoId @ '' ?'')))"

definition handleDownload :: "world \<Rightarrow> string \<Rightarrow> app_state \<Rightarrow> app_state" where
  "handleDownload w repoId st =
     (let st1 = st\<lparr>isLoading := True,
                     loadingMessage := ''Analyse de '' @ repoId @ ''...'',
                     calls := calls st @ [check_request repoId]\<rparr>
      in (case apiFetch (post_check_remote w repoId) of
            Inl err \<Rightarrow> st1\<lparr>error := Some (message err)\<rparr>
          | Inr check \<Rightarrow>
             (case confirmMsg repoId check of
                Inl err \<Rightarrow> st1\<lparr>error := Some (message err)\<rparr>
              | Inr msg \<Rightarrow>
                 (let st2 = st1\<lparr>prompts := prompts st1 @ [msg]\<rparr>
                  in if \<not> confirm w msg then st2\<lparr>isLoading := False\<rparr>
                     else
                       (let st3 = st2\<lparr>loadingMessage := ''D'' @ e_acute @ ''marrage du t''
                                         @ e_acute @ ''l'' @ e_acute @ ''chargement optimis''
                                         @ e_acute @ '' (Aria2)...'',
                                       calls := calls st2 @ [download_request repoId]\<rparr>
                        in (case apiFetch (post_download w repoId) of
                              Inl err \<Rightarrow> st3\<lparr>error := Some (message err)\<rparr>
                            | Inr ack \<Rightarrow>
                                fetchModels_begin
                                  (st3\<lparr>alerts := alerts st3 @ [''T'' @ e_acute @ ''l'' @ e_acute
                                          @ ''chargement lanc'' @ e_acute @ '' en arri''
                                          @ e_grave @ ''re-plan.''],
                                        activeTab := Inventory\<rparr>))))))
         \<lparr>isLoading := False\<rparr>)"

text \<open>Line 198: the message of the \<^verbatim>\<open>confirm\<close> that guards the deletion.\<close>

definition delete_prompt :: "string \<Rightarrow> string" where
  "delete_prompt repoId =
     ''Supprimer '' @ repoId @ '' ? Cette action est irr'' @ e_acute @ ''versible.''"

definition handleDelete :: "world \<Rightarrow> string \<Rightarrow> app_state \<Rightarrow> app_state" where
  "handleDelete w repoId st =
     (let msg = delete_prompt repoId;
          st0 = st\<lparr>prompts := prompts st @ [msg]\<rparr>
      in if \<not> confirm w msg then st0
         else
           (let st1 = st0\<lparr>isLoading := True, calls := calls st0 @ [delete_request repoId]\<rparr>
            in (case apiFetch (delete_models w repoId) of
                  Inr ack \<Rightarrow> fetchModels w st1
                | Inl err \<Rightarrow> st1\<lparr>error := Some (message err)\<rparr>)
               \<lparr>isLoading := False\<rparr>))"

definition handleSnippet :: "world \<Rightarrow> string \<Rightarrow> app_state \<Rightarrow> app_state" where
  "handleSnippet w repoId st =
     (let st1 = st\<lparr>isLoading := True, calls := calls st @ [snippet_request repoId]\<rparr>
      in (case apiFetch (post_snippet w repoId) of
            Inr data \<Rightarrow> st1\<lparr>snippetData := Some data\<rparr>
          | Inl err \<Rightarrow> st1\<lparr>error := Some (message err)\<rparr>)
         \<lparr>isLoading := False\<rparr>)"

definition handleVerify :: "world \<Rightarrow> string \<Rightarrow> app_state \<Rightarrow> app_state" where
  "handleVerify w repoId st =
     (let st1 = st\<lparr>isLoading := True,
                     loadingMessage := ''V'' @ e_acute @ ''rification d'int'' @ e_acute
                       @ ''grit'' @ e_acute @ ''...'',
                     calls := calls st @ [verify_request repoId]\<rparr>
      in (case apiFetch (post_verify w repoId) of
            Inr data \<Rightarrow> st1\<lparr>verifyData := Some data\<rparr>
          | Inl err \<Rightarrow> st1\<lparr>error := Some (message err)\<rparr>)
         \<lparr>isLoading := False\<rparr>)"

definition handleCleanup :: "world \<Rightarrow> app_state \<Rightarrow> app_state" where
  "handleCleanup w st =
     (let st1 = st\<lparr>isLoading := True, calls := calls st @ [cleanup_request]\<rparr>
      in (case apiFetch (post_cleanup w) of
            Inr res \<Rightarrow>
              fetchModels_begin
                (st1\<lparr>alerts := alerts st1 @ [''Nettoyage termin'' @ e_acute @ '' : ''
                        @ string_of_int (count res) @ '' dossiers supprim'' @ e_acute @ ''s.'']\<rparr>)
          | Inl err \<Rightarrow> st1\<lparr>error := Some (message err)\<rparr>)
         \<lparr>isLoading := False, showCleanupConfirm := False\<rparr>)"

text \<open>The requests that a run from \<open>st\<close> to \<open>st'\<close> has added to the log.\<close>

definition issued :: "app_state \<Rightarrow> app_state \<Rightarrow> request list" where
  "issued st st' = drop (length (calls st)) (calls st')"


subsection \<open>The earlier version (\<^verbatim>\<open>src/unnamed/part_000\<close> and \<^verbatim>\<open>part_001\<close>)\<close>

text \<open>
  Modelled: \<^verbatim>\<open>apiFetch\<close> (above), \<^verbatim>\<open>getMockModels\<close>, \<^verbatim>\<open>getMockDiagnostics\<close>,
  \<^verbatim>\<open>fetchModels\<close>, \<^verbatim>\<open>fetchDiagnostics\<close>, the effect and \<^verbatim>\<open>handleSearch\<close>, with the
  state they use. \<^verbatim>\<open>handleTestAll\<close> and \<^verbatim>\<open>handleDeleteModel\<close> and the cell
  \<^verbatim>\<open>testResults\<close> are left out.
\<close>

record ModelInfo_demo =
  Nom :: string
  Chemin :: string
  Taille :: string
  Statut :: string
  Type :: string
  PyTorch :: string
  TF :: string
  CUDA :: string
  StandardHF :: string
  RepoID :: string

record Diagnostics_demo =
  CPU_demo :: "(string \<times> jsval) list option"
  RAM_demo :: "(string \<times> jsval) list option"
  GPU_CUDA_demo :: "(string \<times> jsval) list option"
  Conseil_RAM_demo :: "string option"
  Conseil_GPU_demo :: "string option"

record SearchResult_demo =
  id_demo :: string
  author_demo :: string
  tags_demo :: "string list"
  downloads_demo :: int
  is_standard_demo :: bool

definition getMockModels :: "ModelInfo_demo list" where
  "getMockModels =
     [\<lparr>Nom = ''Kibali-Llama-3-Mock'', Chemin = ''/mock/path/llama'', Taille = ''8.0GB'',
       Statut = ''Complet'', Type = ''LLM'', PyTorch = ''Oui'', TF = ''Non'', CUDA = ''Oui'',
       StandardHF = ''Oui'', RepoID = ''meta-llama/Llama-3-8B''\<rparr>,
      \<lparr>Nom = ''Kibali-StableDiffusion-XL'', Chemin = ''/mock/path/sdxl'', Taille = ''6.5GB'',
       Statut = ''Complet'', Type = ''Diffusion'', PyTorch = ''Oui'', TF = ''Non'',
       CUDA = ''Oui'', StandardHF = ''Oui'',
       RepoID = ''stabilityai/stable-diffusion-xl-base-1.0''\<rparr>]"

definition getMockDiagnostics :: Diagnostics_demo where
  "getMockDiagnostics =
     \<lparr>CPU_demo = Some [(''C'' @ oe_lig @ ''urs'', Num 8), (''Threads'', Num 16),
                       (''Fr'' @ e_acute @ ''quence'', Str ''3.5GHz'')],
      RAM_demo = Some [(''Totale'', Str ''16GB''), (''Utilis'' @ e_acute @ ''e'', Str ''45%''),
                       (''Libre'', Str ''8.8GB'')],
      GPU_CUDA_demo = Some [(''Disponible'', Str ''Oui''), (''Nom GPU'', Str ''NVIDIA RTX 3080''),
                            (''VRAM'', Str ''10GB'')],
      Conseil_RAM_demo = Some (check_mark @ '' Syst'' @ e_grave @ ''me stable.''),
      Conseil_GPU_demo = Some (check_mark @ '' Acc'' @ e_acute @ ''l'' @ e_acute
                               @ ''ration activ'' @ e_acute @ ''e.'')\<rparr>"

text \<open>
  \<open>pending_polls_demo\<close> holds, for each call of \<^verbatim>\<open>fetchDiagnostics\<close> that waits for
  its response, the value of \<^verbatim>\<open>diagnostics\<close> in the closure of that call: the callback
  is created anew whenever \<^verbatim>\<open>diagnostics\<close> changes (its dependency list, line 85) and
  the effect registers the new one, so a call sees the snapshot of the moment it began.
\<close>

record demo_state =
  models_demo :: "ModelInfo_demo list"
  diagnostics_demo :: "Diagnostics_demo option"
  searchQuery_demo :: string
  searchResults_demo :: "SearchResult_demo list"
  isLoading_demo :: bool
  activeTab_demo :: tab
  error_demo :: "string option"
  calls_demo :: "request list"
  timer_demo :: bool
  pending_polls_demo :: "Diagnostics_demo option list"
  mounted_demo :: bool

definition initial_state_demo :: demo_state where
  "initial_state_demo =
     \<lparr>models_demo = [], diagnostics_demo = None, searchQuery_demo = [],
      searchResults_demo = [], isLoading_demo = False, activeTab_demo = Inventory,
      error_demo = None, calls_demo = [], timer_demo = False, pending_polls_demo = [],
      mounted_demo = True\<rparr>"

definition fetchModels_begin_demo :: "demo_state \<Rightarrow> demo_state" where
  "fetchModels_begin_demo st =
     st\<lparr>isLoading_demo := True, error_demo := None,
        calls_demo := calls_demo st @ [models_request]\<rparr>"

definition fetchModels_resume_demo ::
  "ModelInfo_demo list transport \<Rightarrow> demo_state \<Rightarrow> demo_state" where
  "fetchModels_resume_demo tr st =
     (case apiFetch_demo tr of
        Inr data \<Rightarrow> st\<lparr>models_demo := data\<rparr>
      | Inl err \<Rightarrow>
          st\<lparr>models_demo := getMockModels,
             error_demo := Some (''Serveur Backend non d'' @ e_acute @ ''tect'' @ e_acute
                                 @ '' (Mode D'' @ e_acute @ ''mo activ'' @ e_acute @ '')'')\<rparr>)
     \<lparr>isLoading_demo := False\<rparr>"

definition fetchModels_demo :: "ModelInfo_demo list transport \<Rightarrow> demo_state \<Rightarrow> demo_state" where
  "fetchModels_demo tr st = fetchModels_resume_demo tr (fetchModels_begin_demo st)"

definition fetchDiagnostics_begin_demo :: "demo_state \<Rightarrow> demo_state" where
  "fetchDiagnostics_begin_demo st =
     st\<lparr>calls_demo := calls_demo st @ [diagnostics_request]\<rparr>"

definition useEffect_mount_demo :: "demo_state \<Rightarrow> demo_state" where
  "useEffect_mount_demo st =
     (fetchDiagnostics_begin_demo (fetchModels_begin_demo st))
     \<lparr>timer_demo := True, pending_polls_demo := pending_polls_demo st @ [diagnostics_demo st]\<rparr>"

definition useEffect_cleanup_demo :: "demo_state \<Rightarrow> demo_state" where
  "useEffect_cleanup_demo st = st\<lparr>timer_demo := False\<rparr>"

text \<open>
  \<^verbatim>\<open>setDiagnostics\<close> with a new object makes React render again. The callback
  \<^verbatim>\<open>fetchDiagnostics\<close> depends on \<^verbatim>\<open>diagnostics\<close> (line 85) and so is a new function, and
  the effect depends on the callback (line 92): React runs the cleanup of the effect and
  then the effect again, which starts a refresh and a diagnostics fetch and registers a
  new interval. Both \<^verbatim>\<open>getMockDiagnostics()\<close> and a parsed response are new objects.
\<close>

definition setDiagnostics_demo :: "Diagnostics_demo \<Rightarrow> demo_state \<Rightarrow> demo_state" where
  "setDiagnostics_demo snapshot st =
     useEffect_mount_demo (useEffect_cleanup_demo (st\<lparr>diagnostics_demo := Some snapshot\<rparr>))"

text \<open>The second half takes the \<^verbatim>\<open>diagnostics\<close> of the call's closure, \<open>captured\<close>.\<close>

definition fetchDiagnostics_resume_demo ::
  "Diagnostics_demo option \<Rightarrow> Diagnostics_demo transport \<Rightarrow> demo_state \<Rightarrow> demo_state" where
  "fetchDiagnostics_resume_demo captured tr st =
     (case apiFetch_demo tr of
        Inr data \<Rightarrow> setDiagnostics_demo data st
      | Inl err \<Rightarrow>
          (if captured = None then setDiagnostics_demo getMockDiagnostics st
           else st))"

text \<open>
  The poller is stopped for good by the unmount, after which React ignores the setters.
  The cleanup inside a re-run of the effect is a restart, and is part of
  \<open>setDiagnostics_demo\<close>.
\<close>

definition unmount_demo :: "demo_state \<Rightarrow> demo_state" where
  "unmount_demo st = (useEffect_cleanup_demo st)\<lparr>mounted_demo := False\<rparr>"

datatype event_demo = Tick_demo | Arrival_demo "Diagnostics_demo transport" | Stop_demo

fun poller_step_demo :: "demo_state \<Rightarrow> event_demo \<Rightarrow> demo_state" where
  "poller_step_demo st Tick_demo =
     (if timer_demo st
      then (fetchDiagnostics_begin_demo st)
           \<lparr>pending_polls_demo := pending_polls_demo st @ [diagnostics_demo st]\<rparr>
      else st)"
| "poller_step_demo st (Arrival_demo tr) =
     (case pending_polls_demo st of
        [] \<Rightarrow> st
      | captured # rest \<Rightarrow>
          (if mounted_demo st
           then fetchDiagnostics_resume_demo captured tr (st\<lparr>pending_polls_demo := rest\<rparr>)
           else st\<lparr>pending_polls_demo := rest\<rparr>))"
| "poller_step_demo st Stop_demo = unmount_demo st"

definition poller_run_demo :: "demo_state \<Rightarrow> event_demo list \<Rightarrow> demo_state" where
  "poller_run_demo st evs = foldl poller_step_demo st evs"

definition search_request_demo :: "string \<Rightarrow> request" where
  "search_request_demo q =
     \<lparr>endpoint = ''/search?query='' @ encodeURIComponent q, http_method = GET, body = None\<rparr>"

definition handleSearch_demo ::
  "SearchResult_demo list transport \<Rightarrow> demo_state \<Rightarrow> demo_state" where
  "handleSearch_demo tr st =
     (if searchQuery_demo st = [] then st
      else
        (let st1 = st\<lparr>isLoading_demo := True,
                        calls_demo := calls_demo st @ [search_request_demo (searchQuery_demo st)]\<rparr>
         in (case apiFetch_demo tr of
               Inr data \<Rightarrow> st1\<lparr>searchResults_demo := data\<rparr>
             | Inl err \<Rightarrow>
                 st1\<lparr>searchResults_demo :=
                       [\<lparr>id_demo = ''demo/'' @ searchQuery_demo st @ ''-model'',
                         author_demo = ''demo-user'', tags_demo = [''demo''],
                         downloads_demo = 100, is_standard_demo = True\<rparr>]\<rparr>)
            \<lparr>isLoading_demo := False\<rparr>))"

definition issued_demo :: "demo_state \<Rightarrow> demo_state \<Rightarrow> request list" where
  "issued_demo st st' = drop (length (calls_demo st)) (calls_demo st')"

text \<open>A fetch that fails: \<^verbatim>\<open>apiFetch\<close> throws.\<close>

definition fails :: "'a transport \<Rightarrow> bool" where
  "fails tr = isl (apiFetch tr)"

definition fails_demo :: "'a transport \<Rightarrow> bool" where
  "fails_demo tr = isl (apiFetch_demo tr)"




subsection \<open>Concrete runs\<close>

text \<open>
  A backend that answers every endpoint but the snippet and verification ones, and a user
  who accepts every \<^verbatim>\<open>confirm\<close>. The check is the one of the specification's example:
  a repository that is not standard, with two Python files.
\<close>

definition example_check :: PreflightCheck where
  "example_check =
     \<lparr>check_repo_id = ''org/custom-model'', is_standard = False,
      custom_files = Some [''modeling.py'', ''config.py'']\<rparr>"

definition example_hit :: SearchResult where
  "example_hit =
     \<lparr>hit_id = ''org/custom-model'', author = ''org'', downloads = 1200,
      hit_is_standard = False, tags = [''pytorch''], likes = 7, pipeline_tag = None\<rparr>"

definition example_snapshot :: Diagnostics where
  "example_snapshot =
     \<lparr>CPU = [(''Threads'', Num 16)], RAM = [(''Totale'', Str ''16GB'')],
      GPU_CUDA = [(''Disponible'', Str ''Non'')], Conseil_RAM = None, Conseil_GPU = None\<rparr>"

definition example_world :: world where
  "example_world =
     \<lparr>confirm = (\<lambda>msg. True),
      get_models = Responds 20 (Accepted (Some [])),
      post_search = (\<lambda>q. Responds 35 (Accepted (Some [example_hit]))),
      post_check_remote = (\<lambda>repoId. Responds 15 (Accepted (Some example_check))),
      post_download = (\<lambda>repoId. Responds 25 (Accepted (Some ()))),
      delete_models = (\<lambda>repoId. Responds 10 (Accepted (Some ()))),
      post_snippet = (\<lambda>repoId. Fails 5),
      post_verify = (\<lambda>repoId. Fails 5),
      post_cleanup = Responds 30 (Accepted (Some \<lparr>count = 0\<rparr>))\<rparr>"

text \<open>
  Three more checks: two of a standard repository that ships one Python file, under
  different names, and one of a standard repository whose answer has no
  \<^verbatim>\<open>custom_files\<close> field.
\<close>

definition standard_check_with_code :: PreflightCheck where
  "standard_check_with_code =
     \<lparr>check_repo_id = ''org/model'', is_standard = True, custom_files = Some [''modeling.py'']\<rparr>"

definition other_standard_check :: PreflightCheck where
  "other_standard_check =
     \<lparr>check_repo_id = ''org/model'', is_standard = True,
      custom_files = Some [''configuration.py'']\<rparr>"

definition plain_check :: PreflightCheck where
  "plain_check = \<lparr>check_repo_id = ''org/plain'', is_standard = True, custom_files = None\<rparr>"

text \<open>
  A check of a repository that is not standard, whose answer has no \<^verbatim>\<open>custom_files\<close>
  field; a backend that gives this answer; and a user who declines every \<^verbatim>\<open>confirm\<close>.
\<close>

definition custom_check_without_files :: PreflightCheck where
  "custom_check_without_files =
     \<lparr>check_repo_id = ''org/bare'', is_standard = False, custom_files = None\<rparr>"

definition bare_world :: world where
  "bare_world =
     example_world\<lparr>post_check_remote :=
       (\<lambda>repoId. Responds 15 (Accepted (Some custom_check_without_files)))\<rparr>"

definition declining_world :: world where
  "declining_world = example_world\<lparr>confirm := (\<lambda>msg. False)\<rparr>"

text \<open>
  An installed model, and a backend whose inventory and cleanup endpoints cannot be
  reached.
\<close>

definition example_model :: ModelInfo where
  "example_model =
     \<lparr>nom = ''bert-base'', repo_id = ''google/bert-base'', chemin = ''/cache/bert-base'',
      taille_fmt = ''420.0 MB'', taille_bytes = 440401920, statut = ''Complet'',
      model_type = ''NLP'', pytorch = True, tf = False, cuda_compatible = True,
      standard_hf = True, model_custom_files = []\<rparr>"

definition offline_world :: world where
  "offline_world = example_world\<lparr>get_models := Fails 9, post_cleanup := Fails 12\<rparr>"


section \<open>Auxiliary facts\<close>

lemma sublist_skip: "sublist xs zs \<Longrightarrow> sublist xs (ys @ zs)"
  unfolding sublist_def by (metis append.assoc)

lemma prefix_skip: "prefix xs zs \<Longrightarrow> prefix (ys @ xs) (ys @ zs)"
  by simp

text \<open>Every element of a joined array is a part of the joined string.\<close>

lemma sublist_join: "f \<in> set files \<Longrightarrow> sublist f (join sep files)"
proof (induction sep files rule: join.induct)
  case (1 sep)
  then show ?case by simp
next
  case (2 sep x)
  then show ?case by simp
next
  case (3 sep x y ys)
  show ?case
  proof (cases "f = x")
    case True
    then show ?thesis by simp
  next
    case False
    with 3 have "sublist f (join sep (y # ys))" by simp
    then have "sublist f (x @ sep @ join sep (y # ys))"
      by (intro sublist_skip)
    then show ?thesis by simp
  qed
qed

subsection \<open>Failed polls, and a stopped poller\<close>

lemma poller_run_Cons: "poller_run st (ev # evs) = poller_run (poller_step st ev) evs"
  by (simp add: poller_run_def)

lemma poller_run_append: "poller_run st (xs @ ys) = poller_run (poller_run st xs) ys"
  by (simp add: poller_run_def)

lemma poller_run_demo_Cons:
  "poller_run_demo sd (ev # evs) = poller_run_demo (poller_step_demo sd ev) evs"
  by (simp add: poller_run_demo_def)









lemma stopped_step:
  "\<not> timer st \<Longrightarrow> \<not> mounted st \<Longrightarrow>
     \<not> timer (poller_step st ev) \<and> \<not> mounted (poller_step st ev) \<and>
     calls (poller_step st ev) = calls st \<and> diagnostics (poller_step st ev) = diagnostics st"
  by (cases ev) (auto simp: unmount_def useEffect_cleanup_def)

lemma stopped_run:
  "\<not> timer st \<Longrightarrow> \<not> mounted st \<Longrightarrow>
     \<not> timer (poller_run st evs) \<and> \<not> mounted (poller_run st evs) \<and>
     calls (poller_run st evs) = calls st \<and> diagnostics (poller_run st evs) = diagnostics st"
proof (induction evs arbitrary: st)
  case Nil
  then show ?case by (simp add: poller_run_def)
next
  case (Cons ev evs)
  with stopped_step [OF Cons.prems, of ev] Cons.IH [of "poller_step st ev"]
  show ?case by (simp add: poller_run_Cons)
qed

lemma stopped_step_demo:
  "\<not> timer_demo sd \<Longrightarrow> \<not> mounted_demo sd \<Longrightarrow>
     \<not> timer_demo (poller_step_demo sd ev) \<and> \<not> mounted_demo (poller_step_demo sd ev) \<and>
     calls_demo (poller_step_demo sd ev) = calls_demo sd \<and>
     diagnostics_demo (poller_step_demo sd ev) = diagnostics_demo sd"
  by (cases ev) (auto simp: unmount_demo_def useEffect_cleanup_demo_def split: list.splits)

lemma stopped_run_demo:
  "\<not> timer_demo sd \<Longrightarrow> \<not> mounted_demo sd \<Longrightarrow>
     \<not> timer_demo (poller_run_demo sd evs) \<and> \<not> mounted_demo (poller_run_demo sd evs) \<and>
     calls_demo (poller_run_demo sd evs) = calls_demo sd \<and>
     diagnostics_demo (poller_run_demo sd evs) = diagnostics_demo sd"
proof (induction evs arbitrary: sd)
  case Nil
  then show ?case by (simp add: poller_run_demo_def)
next
  case (Cons ev evs)
  with stopped_step_demo [OF Cons.prems, of ev] Cons.IH [of "poller_step_demo sd ev"]
  show ?case by (simp add: poller_run_demo_Cons)
qed

lemma apiFetch_never_aborts: "apiFetch tr \<noteq> Inl (AbortError m)"
proof (cases tr)
  case (Responds t r)
  show ?thesis
  proof (cases r)
    case (Accepted d)
    with Responds show ?thesis by (cases d) (simp_all add: bad_json_def)
  next
    case (Refused status statusText b)
    with Responds show ?thesis by (cases b) simp_all
  qed
next
  case (Fails t)
  then show ?thesis by (simp add: network_failure_def)
qed

lemma apiFetch_ignores_time: "apiFetch (Responds t r) = apiFetch (Responds t' r)"
proof (cases r)
  case (Accepted d)
  then show ?thesis by (cases d) simp_all
next
  case (Refused status statusText b)
  then show ?thesis by simp
qed

lemma apiFetch_network_failure: "apiFetch tr = Inl network_failure \<longleftrightarrow> (\<exists>t. tr = Fails t)"
proof (cases tr)
  case (Responds t r)
  show ?thesis
  proof (cases r)
    case (Accepted d)
    with Responds show ?thesis by (cases d) (simp_all add: bad_json_def network_failure_def)
  next
    case (Refused status statusText b)
    with Responds show ?thesis by (cases b) (simp_all add: network_failure_def)
  qed
next
  case (Fails t)
  then show ?thesis by simp
qed

section \<open>Properties\<close>

subsection \<open>Search\<close>

text \<open>
  Claim C3. A search with an empty query makes no gateway call and changes nothing, the
  stored hits included. A search with a non-empty query makes one gateway call, the
  search request for that query, and when the gateway delivers a sequence of hits that
  sequence is stored as it is. Both versions of the component behave so.
\<close>

theorem search_empty_or_stored:
  "(searchQuery st = [] \<longrightarrow>
      handleSearch w st = st \<and> issued st (handleSearch w st) = []) \<and>
   (searchQuery st \<noteq> [] \<longrightarrow>
      issued st (handleSearch w st) = [search_request (searchQuery st)] \<and>
      (\<forall>hits. apiFetch (post_search w (searchQuery st)) = Inr hits \<longrightarrow>
         searchResults (handleSearch w st) = hits)) \<and>
   (searchQuery_demo sd = [] \<longrightarrow>
      handleSearch_demo tr sd = sd \<and> issued_demo sd (handleSearch_demo tr sd) = []) \<and>
   (searchQuery_demo sd \<noteq> [] \<longrightarrow>
      issued_demo sd (handleSearch_demo tr sd) = [search_request_demo (searchQuery_demo sd)] \<and>
      (\<forall>hits. apiFetch_demo tr = Inr hits \<longrightarrow>
         searchResults_demo (handleSearch_demo tr sd) = hits))"
  by (auto simp: handleSearch_def handleSearch_demo_def issued_def issued_demo_def Let_def
      split: sum.splits)

theorem search_empty_or_stored_witness:
  "handleSearch example_world initial_state = initial_state \<and>
   searchResults (handleSearch example_world (initial_state\<lparr>searchQuery := ''bert''\<rparr>))
     = [example_hit] \<and>
   handleSearch_demo (Fails 8) initial_state_demo = initial_state_demo \<and>
   searchResults_demo
     (handleSearch_demo (Responds 40 (Accepted (Some [])))
        (initial_state_demo\<lparr>searchQuery_demo := ''bert''\<rparr>)) = []"
  using search_empty_or_stored
          [where st = initial_state and w = example_world
             and sd = initial_state_demo and tr = "Fails 8"]
        search_empty_or_stored
          [where st = "initial_state\<lparr>searchQuery := ''bert''\<rparr>" and w = example_world
             and sd = "initial_state_demo\<lparr>searchQuery_demo := ''bert''\<rparr>"
             and tr = "Responds 40 (Accepted (Some []))"]
  by (simp add: initial_state_def initial_state_demo_def example_world_def timeout_ms_def)

subsection \<open>The confirmation message of a download\<close>

text \<open>
  Claim C1, as the specification states it, fails in its second case: for a standard
  repository with custom files the message is said to list the files. The message built
  for a standard repository with the single file \<^verbatim>\<open>modeling.py\<close> does not contain that
  name.
\<close>

theorem note_omits_file_names:
  "is_standard standard_check_with_code \<and>
   custom_files standard_check_with_code = Some [''modeling.py''] \<and>
   \<not> isl (confirmMsg ''org/model'' standard_check_with_code) \<and>
   \<not> sublist ''modeling.py'' (projr (confirmMsg ''org/model'' standard_check_with_code))"
  by code_simp

text \<open>
  Claim C1, amended. When the check carries a sequence of custom files, the message is
  one of three, by the check alone. Not standard: a warning that opens with the warning
  sign and \<^verbatim>\<open>ATTENTION\<close>, and contains the files joined by commas, hence each file name.
  Standard with at least one custom file: a note that opens with the information sign,
  contains the number of the files and the sentence that \<^verbatim>\<open>trust_remote_code=True\<close>
  will be needed; the note is given in full, and it is the same for any two standard
  checks with as many files, whatever the names. Standard with no custom file, or with
  no such field: the plain question. The warning is given in full too.
\<close>

theorem confirmMsg_three_cases:
  "(\<not> is_standard check \<and> custom_files check = Some files \<longrightarrow>
      (\<exists>m. confirmMsg repoId check = Inr m \<and>
           prefix (warning_sign @ '' ATTENTION: '' @ repoId) m \<and>
           sublist (join '', '' files) m \<and> (\<forall>f\<in>set files. sublist f m))) \<and>
   (is_standard check \<and> custom_files check = Some files \<and> files \<noteq> [] \<longrightarrow>
      (\<exists>m. confirmMsg repoId check = Inr m \<and>
           prefix (info_sign @ '' Note : '' @ repoId) m \<and>
           sublist (string_of_nat (length files)) m \<and>
           sublist ''Il faudra utiliser trust_remote_code=True.'' m)) \<and>
   (is_standard check \<and> (custom_files check = None \<or> custom_files check = Some []) \<longrightarrow>
      confirmMsg repoId check =
        Inr (''T'' @ e_acute @ ''l'' @ e_acute @ ''charger '' @ repoId @ '' ?'')) \<and>
   (is_standard check \<and> custom_files check = Some files \<and> files \<noteq> [] \<longrightarrow>
      confirmMsg repoId check =
        Inr (info_sign @ '' Note : '' @ repoId
             @ '' est Standard mais contient du code custom (''
             @ string_of_nat (length files) @ '' fichiers).'' @ nl
             @ ''Il faudra utiliser trust_remote_code=True.'' @ nl @ ''Continuer ?'')) \<and>
   (is_standard check \<and> custom_files check = Some files \<and> files \<noteq> [] \<and>
    is_standard check' \<and> custom_files check' = Some files' \<and> length files' = length files \<longrightarrow>
      confirmMsg repoId check' = confirmMsg repoId check) \<and>
   (\<not> is_standard check \<and> custom_files check = Some files \<longrightarrow>
      confirmMsg repoId check =
        Inr (warning_sign @ '' ATTENTION: '' @ repoId @ '' est un mod'' @ e_grave
             @ ''le CUSTOM.'' @ nl @ ''Il contient des fichiers Python sp'' @ e_acute
             @ ''cifiques : '' @ join '', '' files @ ''.'' @ nl @ nl
             @ ''Son utilisation demandera du code manuel.'' @ nl @ ''Continuer ?''))"
proof (intro conjI impI)
  assume a: "\<not> is_standard check \<and> custom_files check = Some files"
  let ?m = "warning_sign @ '' ATTENTION: '' @ repoId @ '' est un mod'' @ e_grave
                  @ ''le CUSTOM.'' @ nl @ ''Il contient des fichiers Python sp'' @ e_acute
                  @ ''cifiques : '' @ join '', '' files @ ''.'' @ nl @ nl
                  @ ''Son utilisation demandera du code manuel.'' @ nl @ ''Continuer ?''"
  have m: "confirmMsg repoId check = Inr ?m" using a by (simp add: confirmMsg_def)
  have p: "prefix (warning_sign @ '' ATTENTION: '' @ repoId) ?m"
    by (intro prefix_skip prefixI) (rule refl)
  have j: "sublist (join '', '' files) ?m"
    by (intro sublist_skip sublist_append_rightI)
  have "\<forall>f\<in>set files. sublist f ?m"
    using j sublist_join sublist_order.order_trans by blast
  with m p j show "\<exists>m. confirmMsg repoId check = Inr m \<and>
           prefix (warning_sign @ '' ATTENTION: '' @ repoId) m \<and>
           sublist (join '', '' files) m \<and> (\<forall>f\<in>set files. sublist f m)" by blast
next
  assume a: "is_standard check \<and> custom_files check = Some files \<and> files \<noteq> []"
  let ?m = "info_sign @ '' Note : '' @ repoId
                     @ '' est Standard mais contient du code custom (''
                     @ string_of_nat (length files) @ '' fichiers).'' @ nl
                     @ ''Il faudra utiliser trust_remote_code=True.'' @ nl @ ''Continuer ?''"
  have m: "confirmMsg repoId check = Inr ?m" using a by (simp add: confirmMsg_def)
  have p: "prefix (info_sign @ '' Note : '' @ repoId) ?m"
    by (intro prefix_skip prefixI) (rule refl)
  have c: "sublist (string_of_nat (length files)) ?m"
    by (intro sublist_skip sublist_append_rightI)
  have t: "sublist ''Il faudra utiliser trust_remote_code=True.'' ?m"
    by (intro sublist_skip sublist_append_rightI)
  from m p c t show "\<exists>m. confirmMsg repoId check = Inr m \<and>
           prefix (info_sign @ '' Note : '' @ repoId) m \<and>
           sublist (string_of_nat (length files)) m \<and>
           sublist ''Il faudra utiliser trust_remote_code=True.'' m" by blast
next
  assume "is_standard check \<and> (custom_files check = None \<or> custom_files check = Some [])"
  then show "confirmMsg repoId check =
        Inr (''T'' @ e_acute @ ''l'' @ e_acute @ ''charger '' @ repoId @ '' ?'')"
    by (auto simp: confirmMsg_def)
next
  assume "is_standard check \<and> custom_files check = Some files \<and> files \<noteq> []"
  then show "confirmMsg repoId check =
        Inr (info_sign @ '' Note : '' @ repoId
             @ '' est Standard mais contient du code custom (''
             @ string_of_nat (length files) @ '' fichiers).'' @ nl
             @ ''Il faudra utiliser trust_remote_code=True.'' @ nl @ ''Continuer ?'')"
    by (simp add: confirmMsg_def)
next
  assume "is_standard check \<and> custom_files check = Some files \<and> files \<noteq> [] \<and>
    is_standard check' \<and> custom_files check' = Some files' \<and> length files' = length files"
  then show "confirmMsg repoId check' = confirmMsg repoId check"
    by (auto simp: confirmMsg_def)
next
  assume "\<not> is_standard check \<and> custom_files check = Some files"
  then show "confirmMsg repoId check =
        Inr (warning_sign @ '' ATTENTION: '' @ repoId @ '' est un mod'' @ e_grave
             @ ''le CUSTOM.'' @ nl @ ''Il contient des fichiers Python sp'' @ e_acute
             @ ''cifiques : '' @ join '', '' files @ ''.'' @ nl @ nl
             @ ''Son utilisation demandera du code manuel.'' @ nl @ ''Continuer ?'')"
    by (simp add: confirmMsg_def)
qed

theorem confirmMsg_three_cases_witness:
  "sublist ''modeling.py'' (projr (confirmMsg ''org/custom-model'' example_check)) \<and>
   sublist ''config.py'' (projr (confirmMsg ''org/custom-model'' example_check)) \<and>
   sublist ''1'' (projr (confirmMsg ''org/model'' standard_check_with_code)) \<and>
   confirmMsg ''org/model'' other_standard_check
     = confirmMsg ''org/model'' standard_check_with_code \<and>
   confirmMsg ''org/plain'' plain_check =
     Inr (''T'' @ e_acute @ ''l'' @ e_acute @ ''charger org/plain ?'')"
  using confirmMsg_three_cases
          [where check = example_check and files = "[''modeling.py'', ''config.py'']"
             and repoId = "''org/custom-model''" and check' = example_check and files' = "[]"]
        confirmMsg_three_cases
          [where check = standard_check_with_code and files = "[''modeling.py'']"
             and repoId = "''org/model''" and check' = other_standard_check
             and files' = "[''configuration.py'']"]
        confirmMsg_three_cases
          [where check = plain_check and files = "[]" and repoId = "''org/plain''"
             and check' = plain_check and files' = "[]"]
  by (auto simp: example_check_def standard_check_with_code_def plain_check_def
        other_standard_check_def)

text \<open>
  Claim C2. When the preflight call succeeds and the message is built, \<^verbatim>\<open>confirm\<close> is
  asked once, with that message. If it accepts, the requests of the run begin with the
  preflight request and the download request, and exactly one request of the run goes to
  the download endpoint. If it declines, the preflight request is the only request of
  the run.
\<close>

theorem download_gate:
  assumes "apiFetch (post_check_remote w repoId) = Inr check"
    and "confirmMsg repoId check = Inr msg"
  shows "prompts (handleDownload w repoId st) = prompts st @ [msg] \<and>
         (confirm w msg \<longrightarrow>
            length (filter (\<lambda>r. endpoint r = ''/models/download'')
                      (issued st (handleDownload w repoId st))) = 1 \<and>
            take 2 (issued st (handleDownload w repoId st))
              = [check_request repoId, download_request repoId]) \<and>
         (\<not> confirm w msg \<longrightarrow>
            issued st (handleDownload w repoId st) = [check_request repoId])"
  using assms
  by (auto simp: handleDownload_def issued_def Let_def fetchModels_begin_def
        check_request_def download_request_def models_request_def split: sum.splits)

theorem download_gate_witness:
  "length (filter (\<lambda>r. endpoint r = ''/models/download'')
             (issued initial_state
                (handleDownload example_world ''org/custom-model'' initial_state))) = 1 \<and>
   issued initial_state (handleDownload declining_world ''org/custom-model'' initial_state)
     = [check_request ''org/custom-model'']"
proof -
  let ?msg = "projr (confirmMsg ''org/custom-model'' example_check)"
  have m: "confirmMsg ''org/custom-model'' example_check = Inr ?msg"
    by (simp add: confirmMsg_def example_check_def)
  have a: "apiFetch (post_check_remote example_world ''org/custom-model'') = Inr example_check"
    by (simp add: example_world_def)
  have d: "apiFetch (post_check_remote declining_world ''org/custom-model'') = Inr example_check"
    by (simp add: declining_world_def example_world_def)
  have ca: "confirm example_world ?msg"
    by (simp add: example_world_def)
  have cd: "\<not> confirm declining_world ?msg"
    by (simp add: declining_world_def)
  from download_gate [OF a m, of initial_state] ca
       download_gate [OF d m, of initial_state] cd
  show ?thesis by blast
qed

text \<open>
  Claim C10. When the preflight answer says the repository is not standard and has no
  \<^verbatim>\<open>custom_files\<close> field, building the message throws: \<^verbatim>\<open>confirm\<close> is never asked,
  the preflight request is the only request of the run, and the thrown error's message
  becomes the notice. When that answer has the field, the message contains the joined
  file names. In the standard branch an absent field throws nothing.
\<close>

theorem download_needs_custom_files:
  "(apiFetch (post_check_remote w repoId) = Inr check \<and>
    \<not> is_standard check \<and> custom_files check = None \<longrightarrow>
      isl (confirmMsg repoId check) \<and>
      prompts (handleDownload w repoId st) = prompts st \<and>
      issued st (handleDownload w repoId st) = [check_request repoId] \<and>
      error (handleDownload w repoId st) = Some (message (projl (confirmMsg repoId check)))) \<and>
   (\<not> is_standard check \<and> custom_files check = Some files \<longrightarrow>
      (\<exists>m. confirmMsg repoId check = Inr m \<and> sublist (join '', '' files) m)) \<and>
   (is_standard check \<and> custom_files check = None \<longrightarrow> \<not> isl (confirmMsg repoId check))"
proof (intro conjI impI)
  assume a: "apiFetch (post_check_remote w repoId) = Inr check \<and>
    \<not> is_standard check \<and> custom_files check = None"
  then have c: "confirmMsg repoId check
      = Inl (TypeError ''Cannot read properties of undefined (reading 'join')'')"
    by (simp add: confirmMsg_def)
  then show "isl (confirmMsg repoId check)" by simp
  from a c show "prompts (handleDownload w repoId st) = prompts st"
    by (simp add: handleDownload_def)
  from a c show "issued st (handleDownload w repoId st) = [check_request repoId]"
    by (simp add: handleDownload_def issued_def)
  from a c show "error (handleDownload w repoId st)
      = Some (message (projl (confirmMsg repoId check)))"
    by (simp add: handleDownload_def)
next
  assume a: "\<not> is_standard check \<and> custom_files check = Some files"
  let ?m = "warning_sign @ '' ATTENTION: '' @ repoId @ '' est un mod'' @ e_grave
                  @ ''le CUSTOM.'' @ nl @ ''Il contient des fichiers Python sp'' @ e_acute
                  @ ''cifiques : '' @ join '', '' files @ ''.'' @ nl @ nl
                  @ ''Son utilisation demandera du code manuel.'' @ nl @ ''Continuer ?''"
  have m: "confirmMsg repoId check = Inr ?m" using a by (simp add: confirmMsg_def)
  have j: "sublist (join '', '' files) ?m"
    by (intro sublist_skip sublist_append_rightI)
  from m j show "\<exists>m. confirmMsg repoId check = Inr m \<and> sublist (join '', '' files) m"
    by blast
next
  assume "is_standard check \<and> custom_files check = None"
  then show "\<not> isl (confirmMsg repoId check)" by (simp add: confirmMsg_def)
qed

theorem download_needs_custom_files_witness:
  "prompts (handleDownload bare_world ''org/bare'' initial_state) = [] \<and>
   issued initial_state (handleDownload bare_world ''org/bare'' initial_state)
     = [check_request ''org/bare''] \<and>
   error (handleDownload bare_world ''org/bare'' initial_state)
     = Some ''Cannot read properties of undefined (reading 'join')'' \<and>
   sublist ''modeling.py, config.py'' (projr (confirmMsg ''org/custom-model'' example_check)) \<and>
   \<not> isl (confirmMsg ''org/plain'' plain_check)"
  using download_needs_custom_files
          [where w = bare_world and repoId = "''org/bare''"
             and check = custom_check_without_files and st = initial_state and files = "[]"]
        download_needs_custom_files
          [where w = example_world and repoId = "''org/custom-model''"
             and check = example_check and st = initial_state
             and files = "[''modeling.py'', ''config.py'']"]
        download_needs_custom_files
          [where w = example_world and repoId = "''org/plain''"
             and check = plain_check and st = initial_state and files = "[]"]
  by (auto simp: bare_world_def example_world_def custom_check_without_files_def
        example_check_def plain_check_def initial_state_def confirmMsg_def)

subsection \<open>The gateway\<close>

text \<open>
  Claim C6, as the specification states it, fails for the gateway of \<^verbatim>\<open>src/App.tsx\<close>,
  which sets no timer: a response that arrives after 5000 ms, beyond the 3000 ms of the
  only budget the repository configures, is returned as data.
\<close>

theorem late_response_accepted:
  "timeout_ms < 5000 \<and>
   apiFetch (Responds 5000 (Accepted (Some example_snapshot))) = Inr example_snapshot"
  by (simp add: timeout_ms_def)

text \<open>
  Claim C6, amended. In the earlier version, whose gateway sets a timer of 3000 ms, a call
  fails with the abort error exactly when its \<^verbatim>\<open>fetch\<close> has not settled within the
  budget, and with the transport error exactly when the transport fails within the
  budget; the two errors differ. The gateway of \<^verbatim>\<open>src/App.tsx\<close> has no budget: it
  never fails with an abort error, what it returns does not depend on when the response
  or the failure arrives, and data that arrives is returned however late. It too fails
  with the transport error exactly when the transport fails.
\<close>

theorem timeout_is_abort:
  "(apiFetch_demo tr = Inl aborted \<longleftrightarrow> timeout_ms \<le> arrival tr) \<and>
   (apiFetch_demo tr = Inl network_failure \<longleftrightarrow> (\<exists>t. tr = Fails t \<and> t < timeout_ms)) \<and>
   aborted \<noteq> network_failure \<and>
   (apiFetch tr = Inl network_failure \<longleftrightarrow> (\<exists>t. tr = Fails t)) \<and>
   (\<forall>m. apiFetch tr \<noteq> Inl (AbortError m)) \<and>
   apiFetch (Responds t r) = apiFetch (Responds t' r) \<and>
   apiFetch (Fails t :: 'a transport) = apiFetch (Fails t') \<and>
   apiFetch (Responds t (Accepted (Some data))) = Inr data"
proof (intro conjI)
  show "apiFetch_demo tr = Inl aborted \<longleftrightarrow> timeout_ms \<le> arrival tr"
    by (cases tr)
       (auto simp: aborted_def network_failure_def bad_json_def
          split: response.splits option.splits)
  show "apiFetch_demo tr = Inl network_failure \<longleftrightarrow> (\<exists>t. tr = Fails t \<and> t < timeout_ms)"
    by (cases tr)
       (auto simp: aborted_def network_failure_def bad_json_def
          split: response.splits option.splits)
  show "aborted \<noteq> network_failure"
    by (simp add: aborted_def network_failure_def)
  show "apiFetch tr = Inl network_failure \<longleftrightarrow> (\<exists>t. tr = Fails t)"
    by (rule apiFetch_network_failure)
  show "\<forall>m. apiFetch tr \<noteq> Inl (AbortError m)"
    by (simp add: apiFetch_never_aborts)
  show "apiFetch (Responds t r) = apiFetch (Responds t' r)"
    by (rule apiFetch_ignores_time)
  show "apiFetch (Fails t :: 'a transport) = apiFetch (Fails t')"
    by simp
  show "apiFetch (Responds t (Accepted (Some data))) = Inr data"
    by simp
qed

theorem timeout_is_abort_witness:
  "apiFetch_demo (Responds 5000 (Accepted (Some example_snapshot))) = Inl aborted \<and>
   apiFetch_demo (Fails 5000 :: Diagnostics transport) = Inl aborted \<and>
   apiFetch_demo (Fails 10 :: Diagnostics transport) = Inl network_failure \<and>
   apiFetch (Fails 5000 :: Diagnostics transport) = Inl network_failure \<and>
   apiFetch (Responds 86400000 (Accepted (Some example_snapshot))) = Inr example_snapshot"
  using timeout_is_abort [where tr = "Responds 5000 (Accepted (Some example_snapshot))"
                            and t = 86400000 and data = example_snapshot]
        timeout_is_abort [where tr = "Fails 5000 :: Diagnostics transport"]
        timeout_is_abort [where tr = "Fails 10 :: Diagnostics transport"]
  by (simp add: timeout_ms_def)

subsection \<open>Refreshing the inventory\<close>

text \<open>
  Claim C5. A refresh whose gateway call fails sets a notice and does one of two things
  to the collection: the current version keeps it as it was, the earlier version
  replaces it by the placeholder models.
\<close>

theorem refresh_failure_policies:
  "(fails (get_models w) \<longrightarrow>
      models (fetchModels w st) = models st \<and>
      error (fetchModels w st)
        = Some (''Backend indisponible. V'' @ e_acute @ ''rifiez que 'main.py' est lanc''
                @ e_acute @ ''.'')) \<and>
   (fails_demo tr \<longrightarrow>
      models_demo (fetchModels_demo tr sd) = getMockModels \<and>
      error_demo (fetchModels_demo tr sd)
        = Some (''Serveur Backend non d'' @ e_acute @ ''tect'' @ e_acute
                @ '' (Mode D'' @ e_acute @ ''mo activ'' @ e_acute @ '')''))"
  by (auto simp: fails_def fails_demo_def fetchModels_def fetchModels_resume_def
        fetchModels_begin_def fetchModels_demo_def fetchModels_resume_demo_def
        fetchModels_begin_demo_def split: sum.splits)

theorem refresh_failure_policies_witness:
  "models (fetchModels offline_world (initial_state\<lparr>models := [example_model]\<rparr>))
     = [example_model] \<and>
   error (fetchModels offline_world (initial_state\<lparr>models := [example_model]\<rparr>)) \<noteq> None \<and>
   models_demo (fetchModels_demo (Responds 7 (Refused 500 ''Internal Server Error'' NoDetail))
                  initial_state_demo) = getMockModels \<and>
   error_demo (fetchModels_demo (Responds 7 (Refused 500 ''Internal Server Error'' NoDetail))
                 initial_state_demo) \<noteq> None"
  using refresh_failure_policies
          [where w = offline_world and st = "initial_state\<lparr>models := [example_model]\<rparr>"
             and tr = "Responds 7 (Refused 500 ''Internal Server Error'' NoDetail)"
             and sd = initial_state_demo]
  by (simp add: fails_def fails_demo_def offline_world_def timeout_ms_def)

subsection \<open>The diagnostics poller\<close>



text \<open>
  Claim C8. The poller is stopped when the component unmounts. From then on, whatever
  happens (ticks that were scheduled, responses of fetches that were in flight), the
  interval stays cleared, no request is issued, and the snapshot is what it was at the
  stop: a late result is not applied. Both versions behave so; the discarding is the
  runtime's, which ignores the setters of an unmounted component.
\<close>

theorem nothing_after_stop:
  "\<not> timer (poller_run (poller_step st Stop) evs) \<and>
   calls (poller_run (poller_step st Stop) evs) = calls st \<and>
   diagnostics (poller_run (poller_step st Stop) evs) = diagnostics st \<and>
   \<not> timer_demo (poller_run_demo (poller_step_demo sd Stop_demo) evs') \<and>
   calls_demo (poller_run_demo (poller_step_demo sd Stop_demo) evs') = calls_demo sd \<and>
   diagnostics_demo (poller_run_demo (poller_step_demo sd Stop_demo) evs') = diagnostics_demo sd"
proof -
  have a: "\<not> timer (poller_step st Stop)" "\<not> mounted (poller_step st Stop)"
    by (simp_all add: unmount_def useEffect_cleanup_def)
  have b: "\<not> timer_demo (poller_step_demo sd Stop_demo)"
          "\<not> mounted_demo (poller_step_demo sd Stop_demo)"
    by (simp_all add: unmount_demo_def useEffect_cleanup_demo_def)
  from stopped_run [OF a, of evs] stopped_run_demo [OF b, of evs']
  show ?thesis by (simp add: unmount_def useEffect_cleanup_def unmount_demo_def
                     useEffect_cleanup_demo_def)
qed

theorem nothing_after_stop_witness:
  "calls (poller_run (poller_step (useEffect_mount initial_state) Stop)
            [Tick, Arrival (Responds 40 (Accepted (Some example_snapshot))), Tick])
     = [models_request, diagnostics_request] \<and>
   diagnostics (poller_run (poller_step (useEffect_mount initial_state) Stop)
                  [Tick, Arrival (Responds 40 (Accepted (Some example_snapshot))), Tick])
     = None \<and>
   calls_demo (poller_run_demo (poller_step_demo (useEffect_mount_demo initial_state_demo)
                                  Stop_demo)
                 [Arrival_demo (Fails 3), Tick_demo])
     = [models_request, diagnostics_request] \<and>
   diagnostics_demo (poller_run_demo (poller_step_demo (useEffect_mount_demo initial_state_demo)
                                        Stop_demo)
                       [Arrival_demo (Fails 3), Tick_demo])
     = None"
  using nothing_after_stop
          [where st = "useEffect_mount initial_state"
             and evs = "[Tick, Arrival (Responds 40 (Accepted (Some example_snapshot))), Tick]"
             and sd = "useEffect_mount_demo initial_state_demo"
             and evs' = "[Arrival_demo (Fails 3), Tick_demo]"]
  by (simp add: useEffect_mount_def useEffect_mount_demo_def fetchDiagnostics_begin_def
        fetchModels_begin_def fetchDiagnostics_begin_demo_def fetchModels_begin_demo_def
        initial_state_def initial_state_demo_def)

subsection \<open>Cleanup\<close>

text \<open>
  Claim C9, as the specification states it, fails when the cleanup call itself fails: the
  handler was invoked (the confirmation was given), and the cleanup request is the only
  request of the run; no refresh follows.
\<close>

theorem cleanup_failure_skips_refresh:
  "isl (apiFetch (post_cleanup offline_world)) \<and>
   issued initial_state (handleCleanup offline_world initial_state) = [cleanup_request] \<and>
   count_list (issued initial_state (handleCleanup offline_world initial_state)) models_request
     = 0"
  by (simp add: offline_world_def example_world_def handleCleanup_def issued_def
        initial_state_def cleanup_request_def models_request_def)

text \<open>
  Claim C9, amended. When the cleanup call succeeds, whatever count it reports, the run
  issues the cleanup request and then the refresh request, once, and sets no notice.
  When the cleanup call fails, the run issues the cleanup request only, no alert is
  shown, the inventory is left as it was, and the message of the error becomes the
  notice.
\<close>

theorem cleanup_refreshes_once:
  "(apiFetch (post_cleanup w) = Inr res \<longrightarrow>
      issued st (handleCleanup w st) = [cleanup_request, models_request] \<and>
      count_list (issued st (handleCleanup w st)) models_request = 1 \<and>
      error (handleCleanup w st) = error st) \<and>
   (isl (apiFetch (post_cleanup w)) \<longrightarrow>
      issued st (handleCleanup w st) = [cleanup_request]) \<and>
   (apiFetch (post_cleanup w) = Inl err \<longrightarrow>
      error (handleCleanup w st) = Some (message err) \<and>
      alerts (handleCleanup w st) = alerts st \<and>
      models (handleCleanup w st) = models st)"
  by (auto simp: handleCleanup_def issued_def fetchModels_begin_def Let_def
        cleanup_request_def models_request_def split: sum.splits)

theorem cleanup_refreshes_once_witness:
  "count (projr (apiFetch (post_cleanup example_world))) = 0 \<and>
   issued initial_state (handleCleanup example_world initial_state)
     = [cleanup_request, models_request] \<and>
   count_list (issued initial_state (handleCleanup example_world initial_state)) models_request
     = 1 \<and>
   issued initial_state (handleCleanup offline_world initial_state) = [cleanup_request] \<and>
   error (handleCleanup offline_world initial_state) = Some ''Failed to fetch''"
proof -
  have h: "apiFetch (post_cleanup example_world) = Inr \<lparr>count = 0\<rparr>"
    by (simp add: example_world_def)
  have f: "apiFetch (post_cleanup offline_world) = Inl network_failure"
    by (simp add: offline_world_def)
  from cleanup_refreshes_once
         [where w = example_world and res = "\<lparr>count = 0\<rparr>" and st = initial_state] h
       cleanup_refreshes_once
         [where w = offline_world and err = network_failure and st = initial_state] f
  show ?thesis by (simp add: cleanup_request_def models_request_def network_failure_def)
qed

subsection \<open>The busy flag\<close>

text \<open>
  Claim C4, as the specification states it, fails on an early return that comes before
  the flag is touched. The user starts a refresh of an inventory that lists one model;
  while the request is in flight the flag is up; the user asks to delete the model and
  declines the confirmation: \<^verbatim>\<open>handleDelete\<close> completes and the flag is still up.
\<close>

theorem busy_flag_survives_declined_delete:
  "isLoading (fetchModels_begin (initial_state\<lparr>models := [example_model]\<rparr>)) \<and>
   \<not> confirm declining_world (delete_prompt (repo_id example_model)) \<and>
   isLoading (handleDelete declining_world (repo_id example_model)
                (fetchModels_begin (initial_state\<lparr>models := [example_model]\<rparr>)))"
  by (simp add: fetchModels_begin_def handleDelete_def declining_world_def Let_def)

text \<open>
  Claim C4, amended. From any state, on every path: download (a declined confirmation and
  a failure included), snippet, verification, cleanup and refresh end with the flag down,
  and so does the second half of a refresh that its caller did not await; a search with a
  non-empty query and a deletion whose confirmation is accepted end with the flag down.
  A search with an empty query changes nothing, and a deletion whose confirmation is
  declined leaves the flag as it found it.
\<close>

theorem busy_flag_cleared:
  "\<not> isLoading (handleDownload w repoId st) \<and>
   \<not> isLoading (handleSnippet w repoId st) \<and>
   \<not> isLoading (handleVerify w repoId st) \<and>
   \<not> isLoading (handleCleanup w st) \<and>
   \<not> isLoading (fetchModels w st) \<and>
   \<not> isLoading (fetchModels_resume tr st) \<and>
   (searchQuery st \<noteq> [] \<longrightarrow> \<not> isLoading (handleSearch w st)) \<and>
   (searchQuery st = [] \<longrightarrow> handleSearch w st = st) \<and>
   (confirm w (delete_prompt repoId) \<longrightarrow> \<not> isLoading (handleDelete w repoId st)) \<and>
   (\<not> confirm w (delete_prompt repoId) \<longrightarrow>
      isLoading (handleDelete w repoId st) = isLoading st)"
proof (intro conjI)
  show "\<not> isLoading (handleDownload w repoId st)"
    by (simp add: handleDownload_def Let_def split: sum.splits)
  show "\<not> isLoading (handleSnippet w repoId st)"
    by (simp add: handleSnippet_def Let_def split: sum.splits)
  show "\<not> isLoading (handleVerify w repoId st)"
    by (simp add: handleVerify_def Let_def split: sum.splits)
  show "\<not> isLoading (handleCleanup w st)"
    by (simp add: handleCleanup_def Let_def split: sum.splits)
  show "\<not> isLoading (fetchModels w st)"
    by (simp add: fetchModels_def fetchModels_resume_def split: sum.splits)
  show "\<not> isLoading (fetchModels_resume tr st)"
    by (simp add: fetchModels_resume_def split: sum.splits)
  show "searchQuery st \<noteq> [] \<longrightarrow> \<not> isLoading (handleSearch w st)"
    by (simp add: handleSearch_def Let_def split: sum.splits)
  show "searchQuery st = [] \<longrightarrow> handleSearch w st = st"
    by (simp add: handleSearch_def)
  show "confirm w (delete_prompt repoId) \<longrightarrow> \<not> isLoading (handleDelete w repoId st)"
    by (simp add: handleDelete_def Let_def split: sum.splits)
  show "\<not> confirm w (delete_prompt repoId) \<longrightarrow>
      isLoading (handleDelete w repoId st) = isLoading st"
    by (simp add: handleDelete_def Let_def)
qed

theorem busy_flag_cleared_witness:
  "\<not> isLoading (handleDownload declining_world ''org/custom-model'' initial_state) \<and>
   \<not> isLoading (handleSearch example_world (initial_state\<lparr>searchQuery := ''bert''\<rparr>)) \<and>
   \<not> isLoading (handleDelete example_world ''google/bert-base''
                  (initial_state\<lparr>models := [example_model]\<rparr>)) \<and>
   \<not> isLoading (handleDelete declining_world ''google/bert-base''
                  (initial_state\<lparr>models := [example_model]\<rparr>)) \<and>
   handleSearch example_world initial_state = initial_state"
  using busy_flag_cleared
          [where w = declining_world and repoId = "''org/custom-model''" and st = initial_state]
        busy_flag_cleared
          [where w = example_world and repoId = "''google/bert-base''"
             and st = "initial_state\<lparr>searchQuery := ''bert''\<rparr>"]
        busy_flag_cleared
          [where w = example_world and repoId = "''google/bert-base''"
             and st = "initial_state\<lparr>models := [example_model]\<rparr>"]
        busy_flag_cleared
          [where w = declining_world and repoId = "''google/bert-base''"
             and st = "initial_state\<lparr>models := [example_model]\<rparr>"]
        busy_flag_cleared
          [where w = example_world and repoId = "''google/bert-base''" and st = initial_state]
  by (simp add: example_world_def declining_world_def initial_state_def)

end
